theory Spec2Isabelle
  imports Main "HOL-Library.Sublist" "HOL-Library.Multiset"
begin

section \<open>Data model\<close>

text \<open>
  The repository is a data-access layer over one PostgreSQL table, \<open>articles\<close>
  (\<open>app/models/article.py\<close>), reached through a connection provider
  (\<open>app/config/database.py\<close>). The Python methods are embedded as functions on an
  explicit world state; the storage server is embedded as the semantics of exactly the
  SQL statements the methods issue.
\<close>

type_synonym timestamp = int

text \<open>
  An in-memory \<open>Article\<close> object. Every attribute may hold Python's \<open>None\<close>:
  \<open>from_dict\<close> copies whatever the row holds, and the constructor accepts any argument.
\<close>

record article =
  art_id :: "int option"
  title :: "string option"
  raw_content :: "string option"
  direct_link :: "string option"
  created_at :: "timestamp option"
  updated_at :: "timestamp option"

text \<open>
  The keyword arguments of \<open>Article.__init__\<close>: \<open>None\<close> is an omitted argument,
  \<open>Some v\<close> a given one (\<open>v\<close> itself may be Python's \<open>None\<close>).
\<close>

record kwargs =
  kw_id :: "int option option"
  kw_title :: "string option option"
  kw_raw_content :: "string option option"
  kw_direct_link :: "string option option"
  kw_created_at :: "timestamp option option"
  kw_updated_at :: "timestamp option option"

definition no_kwargs :: kwargs where
  "no_kwargs = \<lparr>kw_id = None, kw_title = None, kw_raw_content = None,
                 kw_direct_link = None, kw_created_at = None, kw_updated_at = None\<rparr>"

definition Article_init :: "kwargs \<Rightarrow> article" where
  "Article_init kw =
     \<lparr>art_id = (case kw_id kw of None \<Rightarrow> None | Some v \<Rightarrow> v),
      title = (case kw_title kw of None \<Rightarrow> Some [] | Some v \<Rightarrow> v),
      raw_content = (case kw_raw_content kw of None \<Rightarrow> Some [] | Some v \<Rightarrow> v),
      direct_link = (case kw_direct_link kw of None \<Rightarrow> Some [] | Some v \<Rightarrow> v),
      created_at = (case kw_created_at kw of None \<Rightarrow> None | Some v \<Rightarrow> v),
      updated_at = (case kw_updated_at kw of None \<Rightarrow> None | Some v \<Rightarrow> v)\<rparr>"

text \<open>
  A row of \<open>articles\<close>, typed by the \<open>CREATE TABLE\<close> statement of \<open>create_table\<close>:
  \<open>id\<close> and \<open>title\<close> cannot be \<open>NULL\<close>; \<open>raw_content\<close> and \<open>direct_link\<close> can.
  The two timestamp columns are nullable in the schema, but no statement of the
  repository writes \<open>NULL\<close> to them (insert leaves them to their defaults, update sets
  \<open>CURRENT_TIMESTAMP\<close>), so a row always holds a value there.
\<close>

record row =
  col_id :: int
  col_title :: string
  col_raw_content :: "string option"
  col_direct_link :: "string option"
  col_created_at :: timestamp
  col_updated_at :: timestamp

text \<open>
  \<open>Article.from_dict(dict(row))\<close>: the cursor is a \<open>RealDictCursor\<close>, so the
  dictionary has one key per column and \<open>data.get\<close> never falls back to its default.
\<close>

definition from_dict :: "row \<Rightarrow> article" where
  "from_dict r =
     \<lparr>art_id = Some (col_id r), title = Some (col_title r),
      raw_content = col_raw_content r, direct_link = col_direct_link r,
      created_at = Some (col_created_at r), updated_at = Some (col_updated_at r)\<rparr>"

section \<open>Storage\<close>

text \<open>One line of \<open>information_schema.columns\<close>, as \<open>get_table_structure\<close> selects it.\<close>

record column =
  column_name :: string
  data_type :: string
  character_maximum_length :: "nat option"
  is_nullable :: bool
  column_default :: "string option"

text \<open>
  The table: its declared columns, its rows in physical order, the last value drawn
  from the \<open>SERIAL\<close> sequence of \<open>id\<close> (0 before the first draw, so the first id is 1),
  and its secondary indexes as (name, column).
\<close>

record table =
  columns :: "column list"
  rows :: "row list"
  seq_last :: nat
  indexes :: "(string \<times> string) list"

text \<open>What the methods print; the text of a caught exception is left out.\<close>

datatype message =
    Creating_table | Table_created | Indexes_created | Table_confirmed
  | Could_not_verify | Error_creating_table | Error_checking_table
  | Error_getting_structure | Inserted int | Error_inserting
  | Updated "int option" | Update_not_found "int option" | Error_updating
  | Error_retrieving_articles | Error_retrieving_article
  | Deleted "int option" | Delete_not_found "int option" | Error_deleting | Error_searching
  | Error_connecting

text \<open>
  The world outside the Python process: the committed \<open>articles\<close> table (\<open>None\<close> when
  the database has no such table), the number of connections opened by
  \<open>get_connection\<close> and not yet closed by \<open>conn.close()\<close>, and standard output.
\<close>

record world =
  articles :: "table option"
  open_conns :: nat
  stdout :: "message list"

text \<open>
  What the environment decides for one connection: whether the connection, the \<open>n\<close>-th
  \<open>cursor.execute\<close> on it (counted from 0) or the commit fails for a reason outside
  the data (network, server), and the reading of the server's clock, which
  \<open>CURRENT_TIMESTAMP\<close> returns for the whole transaction.
\<close>

datatype fault = No_fault | Connect_fault | Execute_fault nat | Commit_fault

record env =
  fault :: fault
  now :: timestamp

definition print :: "message \<Rightarrow> world \<Rightarrow> world" where
  "print m w = w\<lparr>stdout := stdout w @ [m]\<rparr>"

text \<open>
  \<open>db_config.get_connection()\<close>: a new connection on every call; on failure it prints
  and re-raises (\<open>False\<close> here, beside the world after the print).
\<close>

definition get_connection :: "env \<Rightarrow> world \<Rightarrow> world \<times> bool" where
  "get_connection e w =
     (if fault e = Connect_fault then (print Error_connecting w, False)
      else (w\<lparr>open_conns := Suc (open_conns w)\<rparr>, True))"

text \<open>\<open>cursor.close(); conn.close()\<close>: an uncommitted transaction is rolled back.\<close>

definition close :: "world \<Rightarrow> world" where
  "close w = w\<lparr>open_conns := open_conns w - 1\<rparr>"

text \<open>\<open>conn.commit()\<close> installs the table the transaction has built.\<close>

definition commit :: "table option \<Rightarrow> world \<Rightarrow> world" where
  "commit T w = w\<lparr>articles := T\<rparr>"

subsection \<open>Column types\<close>

text \<open>
  Assignment to \<open>VARCHAR(n)\<close>: a longer string is an error, unless every character
  beyond the limit is a space, in which case it is cut to the limit.
\<close>

definition varchar :: "nat \<Rightarrow> string \<Rightarrow> string option" where
  "varchar n s =
     (if length s \<le> n then Some s
      else if list_all (\<lambda>c. c = CHR '' '') (drop n s) then Some (take n s)
      else None)"

text \<open>The same for a parameter that may be \<open>NULL\<close>; the outer \<open>None\<close> is the error.\<close>

definition varchar_null :: "nat \<Rightarrow> string option \<Rightarrow> string option option" where
  "varchar_null n v = (case v of None \<Rightarrow> Some None | Some s \<Rightarrow> map_option Some (varchar n s))"

text \<open>The upper end of \<open>SERIAL\<close> (a 32-bit signed integer).\<close>

definition serial_max :: nat where
  "serial_max = 2147483647"

text \<open>
  \<open>UNIQUE\<close> on \<open>direct_link\<close>: a non-\<open>NULL\<close> value may occur in one row only;
  \<open>NULL\<close> never collides.
\<close>

definition link_taken :: "string option \<Rightarrow> row list \<Rightarrow> bool" where
  "link_taken l rs = (case l of None \<Rightarrow> False | Some s \<Rightarrow> Some s \<in> set (map col_direct_link rs))"

subsection \<open>Statements\<close>

text \<open>
  \<open>INSERT INTO articles (title, raw_content, direct_link) VALUES (%s, %s, %s)
  RETURNING id, created_at, updated_at\<close>. The statement raises (first component \<open>None\<close>)
  when the table is missing, on a fault, when a value does not fit its column, when
  the sequence is exhausted, when \<open>title\<close> is \<open>NULL\<close>, and when the link is taken.
  Once the row has been formed its id is drawn: the sequence keeps that draw even if
  the statement then fails or the transaction is rolled back, so the second component
  is the sequence value to keep, and the third the table the transaction would commit.
\<close>

definition sql_insert ::
  "env \<Rightarrow> string option \<Rightarrow> string option \<Rightarrow> string option \<Rightarrow> table
     \<Rightarrow> row option \<times> nat \<times> table" where
  "sql_insert e ti rc dl t =
     (if fault e = Execute_fault 0 then (None, seq_last t, t)
      else
       (case varchar_null 500 ti of
          None \<Rightarrow> (None, seq_last t, t)
        | Some ti' \<Rightarrow>
           (case varchar_null 1000 dl of
              None \<Rightarrow> (None, seq_last t, t)
            | Some dl' \<Rightarrow>
               (if serial_max \<le> seq_last t then (None, seq_last t, t)
                else
                 (case ti' of
                    None \<Rightarrow> (None, Suc (seq_last t), t)
                  | Some tit \<Rightarrow>
                     (if link_taken dl' (rows t) then (None, Suc (seq_last t), t)
                      else
                       (let r = \<lparr>col_id = int (Suc (seq_last t)), col_title = tit,
                                 col_raw_content = rc, col_direct_link = dl',
                                 col_created_at = now e, col_updated_at = now e\<rparr>
                        in (Some r, Suc (seq_last t),
                            t\<lparr>rows := rows t @ [r],
                              seq_last := Suc (seq_last t)\<rparr>))))))))"

text \<open>
  \<open>UPDATE articles SET title = %s, raw_content = %s, direct_link = %s,
  updated_at = CURRENT_TIMESTAMP WHERE id = %s RETURNING updated_at\<close>. The id
  parameter may be \<open>NULL\<close>, which no row equals. Values that do not fit their column
  raise whether or not a row matches; \<open>NOT NULL\<close> and \<open>UNIQUE\<close> are checked on the
  rows written.
\<close>

datatype update_result = Update_raised | No_row | Row_updated timestamp table

definition set_row :: "env \<Rightarrow> string \<Rightarrow> string option \<Rightarrow> string option \<Rightarrow> row \<Rightarrow> row" where
  "set_row e tit rc dl r =
     r\<lparr>col_title := tit, col_raw_content := rc, col_direct_link := dl,
       col_updated_at := now e\<rparr>"

definition sql_update ::
  "env \<Rightarrow> string option \<Rightarrow> string option \<Rightarrow> string option \<Rightarrow> int option \<Rightarrow> table
     \<Rightarrow> update_result" where
  "sql_update e ti rc dl i t =
     (if fault e = Execute_fault 0 then Update_raised
      else
       (case varchar_null 500 ti of
          None \<Rightarrow> Update_raised
        | Some ti' \<Rightarrow>
           (case varchar_null 1000 dl of
              None \<Rightarrow> Update_raised
            | Some dl' \<Rightarrow>
               (if filter (\<lambda>r. Some (col_id r) = i) (rows t) = [] then No_row
                else
                 (case ti' of
                    None \<Rightarrow> Update_raised
                  | Some tit \<Rightarrow>
                     (if link_taken dl' (filter (\<lambda>r. Some (col_id r) \<noteq> i) (rows t))
                      then Update_raised
                      else Row_updated (now e)
                             (t\<lparr>rows := map (\<lambda>r. if Some (col_id r) = i
                                                 then set_row e tit rc dl' r else r)
                                          (rows t)\<rparr>)))))))"

section \<open>Saving\<close>

text \<open>Python's truth value of \<open>self.id\<close>: \<open>None\<close> and \<open>0\<close> are false.\<close>

definition truthy :: "int option \<Rightarrow> bool" where
  "truthy v = (case v of None \<Rightarrow> False | Some i \<Rightarrow> i \<noteq> 0)"

text \<open>
  \<open>Article._insert\<close>. The object is assigned from the returned row before the commit;
  the \<open>except\<close> branch prints and returns \<open>None\<close> without closing the connection.
\<close>

definition Article_insert :: "env \<Rightarrow> article \<Rightarrow> world \<Rightarrow> int option \<times> article \<times> world" where
  "Article_insert e a w =
     (case get_connection e w of
        (w0, False) \<Rightarrow> (None, a, print Error_inserting w0)
      | (w1, True) \<Rightarrow>
         (case articles w1 of
            None \<Rightarrow> (None, a, print Error_inserting w1)
          | Some t \<Rightarrow>
             (case sql_insert e (title a) (raw_content a) (direct_link a) t of
                (None, q, t') \<Rightarrow>
                  (None, a, print Error_inserting (w1\<lparr>articles := Some (t\<lparr>seq_last := q\<rparr>)\<rparr>))
              | (Some r, q, t') \<Rightarrow>
                  let a' = a\<lparr>art_id := Some (col_id r),
                             created_at := Some (col_created_at r),
                             updated_at := Some (col_updated_at r)\<rparr>
                  in if fault e = Commit_fault
                     then (None, a',
                           print Error_inserting (w1\<lparr>articles := Some (t\<lparr>seq_last := q\<rparr>)\<rparr>))
                     else (art_id a', a',
                           print (Inserted (col_id r)) (close (commit (Some t') w1))))))"

text \<open>\<open>Article._update\<close>.\<close>

definition Article_update :: "env \<Rightarrow> article \<Rightarrow> world \<Rightarrow> int option \<times> article \<times> world" where
  "Article_update e a w =
     (case get_connection e w of
        (w0, False) \<Rightarrow> (None, a, print Error_updating w0)
      | (w1, True) \<Rightarrow>
         (case articles w1 of
            None \<Rightarrow> (None, a, print Error_updating w1)
          | Some t \<Rightarrow>
             (case sql_update e (title a) (raw_content a) (direct_link a) (art_id a) t of
                Update_raised \<Rightarrow> (None, a, print Error_updating w1)
              | No_row \<Rightarrow> (None, a, print (Update_not_found (art_id a)) (close w1))
              | Row_updated ts t' \<Rightarrow>
                  let a' = a\<lparr>updated_at := Some ts\<rparr>
                  in if fault e = Commit_fault
                     then (None, a', print Error_updating w1)
                     else (art_id a, a',
                           print (Updated (art_id a)) (close (commit (Some t') w1))))))"

text \<open>\<open>Article.save\<close>.\<close>

definition Article_save :: "env \<Rightarrow> article \<Rightarrow> world \<Rightarrow> int option \<times> article \<times> world" where
  "Article_save e a w =
     (if truthy (art_id a) then Article_update e a w else Article_insert e a w)"

section \<open>Table lifecycle\<close>

text \<open>
  \<open>Article.table_exists\<close>: the catalogue query raises on a fault only; \<open>fetchone\<close>
  returns a row exactly when the table is there.
\<close>

definition table_exists :: "env \<Rightarrow> world \<Rightarrow> bool \<times> world" where
  "table_exists e w =
     (case get_connection e w of
        (w0, False) \<Rightarrow> (False, print Error_checking_table w0)
      | (w1, True) \<Rightarrow>
         if fault e = Execute_fault 0 then (False, print Error_checking_table w1)
         else (articles w1 \<noteq> None, close w1))"

text \<open>The columns of the \<open>CREATE TABLE\<close> statement, as the catalogue reports them.\<close>

definition articles_columns :: "column list" where
  "articles_columns =
     [\<lparr>column_name = ''id'', data_type = ''integer'', character_maximum_length = None,
       is_nullable = False, column_default = Some ''nextval'' \<rparr>,
      \<lparr>column_name = ''title'', data_type = ''character varying'',
       character_maximum_length = Some 500, is_nullable = False, column_default = None\<rparr>,
      \<lparr>column_name = ''raw_content'', data_type = ''text'', character_maximum_length = None,
       is_nullable = True, column_default = None\<rparr>,
      \<lparr>column_name = ''direct_link'', data_type = ''character varying'',
       character_maximum_length = Some 1000, is_nullable = True, column_default = None\<rparr>,
      \<lparr>column_name = ''created_at'', data_type = ''timestamp without time zone'',
       character_maximum_length = None, is_nullable = True,
       column_default = Some ''CURRENT_TIMESTAMP''\<rparr>,
      \<lparr>column_name = ''updated_at'', data_type = ''timestamp without time zone'',
       character_maximum_length = None, is_nullable = True,
       column_default = Some ''CURRENT_TIMESTAMP''\<rparr>]"

text \<open>\<open>DROP TABLE IF EXISTS articles\<close>: never raises; the sequence goes with the table.\<close>

definition sql_drop :: "table option \<Rightarrow> table option" where
  "sql_drop T = None"

text \<open>\<open>CREATE TABLE articles (...)\<close>: raises (\<open>None\<close>) when the table is there.\<close>

definition sql_create :: "table option \<Rightarrow> table option option" where
  "sql_create T =
     (case T of
        None \<Rightarrow> Some (Some \<lparr>columns = articles_columns, rows = [], seq_last = 0, indexes = []\<rparr>)
      | Some t \<Rightarrow> None)"

text \<open>\<open>CREATE INDEX IF NOT EXISTS name ON articles(col)\<close>.\<close>

definition create_index :: "string \<Rightarrow> string \<Rightarrow> table \<Rightarrow> table" where
  "create_index nm col t =
     (if nm \<in> set (map fst (indexes t)) then t else t\<lparr>indexes := indexes t @ [(nm, col)]\<rparr>)"

text \<open>The two \<open>CREATE INDEX\<close> statements of \<open>index_query\<close>, sent in one \<open>execute\<close>.\<close>

definition sql_index :: "table option \<Rightarrow> table option option" where
  "sql_index T =
     (case T of
        None \<Rightarrow> None
      | Some t \<Rightarrow>
          Some (Some (create_index ''idx_articles_direct_link'' ''direct_link''
                       (create_index ''idx_articles_title'' ''title'' t))))"

text \<open>
  \<open>Article.create_table\<close>. The first environment is that of its own connection, the
  second that of the connection \<open>table_exists\<close> opens afterwards. The three statements
  run in one transaction: nothing of it is kept unless the commit succeeds.
\<close>

definition create_table :: "env \<Rightarrow> env \<Rightarrow> world \<Rightarrow> bool \<times> world" where
  "create_table e e2 w =
     (case get_connection e w of
        (w0, False) \<Rightarrow> (False, print Error_creating_table w0)
      | (w1, True) \<Rightarrow>
         (let w2 = print Creating_table w1 in
          (if fault e = Execute_fault 0 then (False, print Error_creating_table w2)
           else
            (let T1 = sql_drop (articles w2) in
             (if fault e = Execute_fault 1 then (False, print Error_creating_table w2)
              else
               (case sql_create T1 of
                  None \<Rightarrow> (False, print Error_creating_table w2)
                | Some T2 \<Rightarrow>
                   (let w3 = print Table_created w2 in
                    (if fault e = Execute_fault 2
                     then (False, print Error_creating_table w3)
                     else
                      (case sql_index T2 of
                         None \<Rightarrow> (False, print Error_creating_table w3)
                       | Some T3 \<Rightarrow>
                          (let w4 = print Indexes_created w3 in
                           (if fault e = Commit_fault
                            then (False, print Error_creating_table w4)
                            else
                             (let w5 = close (commit T3 w4) in
                              (case table_exists e2 w5 of
                                 (True, w6) \<Rightarrow> (True, print Table_confirmed w6)
                               | (False, w6) \<Rightarrow>
                                  (False, print Could_not_verify w6))))))))))))))"

text \<open>\<open>Article.get_table_structure\<close>: no line for a table that is not there.\<close>

definition get_table_structure :: "env \<Rightarrow> world \<Rightarrow> column list \<times> world" where
  "get_table_structure e w =
     (case get_connection e w of
        (w0, False) \<Rightarrow> ([], print Error_getting_structure w0)
      | (w1, True) \<Rightarrow>
         if fault e = Execute_fault 0 then ([], print Error_getting_structure w1)
         else ((case articles w1 of None \<Rightarrow> [] | Some t \<Rightarrow> columns t), close w1))"

section \<open>Reading\<close>

text \<open>
  \<open>ORDER BY created_at DESC\<close>. The server leaves the order of rows with equal
  timestamps open; here they stay in physical order.
\<close>

definition order_by_created_at_desc :: "row list \<Rightarrow> row list" where
  "order_by_created_at_desc rs = sort_key (\<lambda>r. - col_created_at r) rs"

text \<open>\<open>Article.get_all\<close>.\<close>

definition get_all :: "env \<Rightarrow> world \<Rightarrow> article list \<times> world" where
  "get_all e w =
     (case get_connection e w of
        (w0, False) \<Rightarrow> ([], print Error_retrieving_articles w0)
      | (w1, True) \<Rightarrow>
         (case articles w1 of
            None \<Rightarrow> ([], print Error_retrieving_articles w1)
          | Some t \<Rightarrow>
             if fault e = Execute_fault 0 then ([], print Error_retrieving_articles w1)
             else (map from_dict (order_by_created_at_desc (rows t)), close w1)))"

text \<open>The tail of \<open>get_by_id\<close> and \<open>get_by_link\<close>: \<open>fetchone\<close> and the conversion.\<close>

definition fetchone_article :: "row list \<Rightarrow> article option" where
  "fetchone_article rs = (case rs of [] \<Rightarrow> None | r # _ \<Rightarrow> Some (from_dict r))"

text \<open>\<open>Article.get_by_id\<close>.\<close>

definition get_by_id :: "env \<Rightarrow> int \<Rightarrow> world \<Rightarrow> article option \<times> world" where
  "get_by_id e article_id w =
     (case get_connection e w of
        (w0, False) \<Rightarrow> (None, print Error_retrieving_article w0)
      | (w1, True) \<Rightarrow>
         (case articles w1 of
            None \<Rightarrow> (None, print Error_retrieving_article w1)
          | Some t \<Rightarrow>
             if fault e = Execute_fault 0 then (None, print Error_retrieving_article w1)
             else (fetchone_article (filter (\<lambda>r. col_id r = article_id) (rows t)), close w1)))"

text \<open>\<open>Article.get_by_link\<close>.\<close>

definition get_by_link :: "env \<Rightarrow> string \<Rightarrow> world \<Rightarrow> article option \<times> world" where
  "get_by_link e link w =
     (case get_connection e w of
        (w0, False) \<Rightarrow> (None, print Error_retrieving_article w0)
      | (w1, True) \<Rightarrow>
         (case articles w1 of
            None \<Rightarrow> (None, print Error_retrieving_article w1)
          | Some t \<Rightarrow>
             if fault e = Execute_fault 0 then (None, print Error_retrieving_article w1)
             else (fetchone_article (filter (\<lambda>r. col_direct_link r = Some link) (rows t)),
                   close w1)))"

section \<open>Deleting\<close>

text \<open>
  \<open>Article.delete\<close>: \<open>DELETE FROM articles WHERE id = %s\<close>, with \<open>cursor.rowcount\<close>
  the number of rows the statement removed.
\<close>

definition Article_delete :: "env \<Rightarrow> article \<Rightarrow> world \<Rightarrow> bool \<times> world" where
  "Article_delete e a w =
     (if \<not> truthy (art_id a) then (False, w)
      else case get_connection e w of
        (w0, False) \<Rightarrow> (False, print Error_deleting w0)
      | (w1, True) \<Rightarrow>
         (case articles w1 of
            None \<Rightarrow> (False, print Error_deleting w1)
          | Some t \<Rightarrow>
             if fault e = Execute_fault 0 then (False, print Error_deleting w1)
             else
               let deleted_rows = length (filter (\<lambda>r. Some (col_id r) = art_id a) (rows t));
                   t' = t\<lparr>rows := filter (\<lambda>r. Some (col_id r) \<noteq> art_id a) (rows t)\<rparr>
               in if fault e = Commit_fault then (False, print Error_deleting w1)
                  else
                    let w2 = close (commit (Some t') w1) in
                    if deleted_rows > 0 then (True, print (Deleted (art_id a)) w2)
                    else (False, print (Delete_not_found (art_id a)) w2)))"

section \<open>Searching\<close>

text \<open>Case folding of \<open>ILIKE\<close>, on the ASCII letters.\<close>

definition lower :: "char \<Rightarrow> char" where
  "lower c =
     (case map_of (zip ''ABCDEFGHIJKLMNOPQRSTUVWXYZ'' ''abcdefghijklmnopqrstuvwxyz'') c of
        None \<Rightarrow> c
      | Some d \<Rightarrow> d)"

text \<open>
  \<open>LIKE\<close>: in the pattern \<open>%\<close> stands for any run of characters, \<open>_\<close> for any one
  character, and a backslash makes the character after it stand for itself. A pattern
  that ends in a lone backslash is an error on the server; \<open>search_by_title\<close> never
  sends one, since its pattern ends in \<open>%\<close>, and it matches nothing here.
\<close>

fun like :: "string \<Rightarrow> string \<Rightarrow> bool" where
  "like [] t = (t = [])"
| "like (p # ps) [] = (p = CHR ''%'' \<and> like ps [])"
| "like (p # ps) (c # cs) =
     (if p = CHR ''%'' then like ps (c # cs) \<or> like (p # ps) cs
      else if p = CHR ''_'' then like ps cs
      else if p = CHR 0x5C then (case ps of [] \<Rightarrow> False | q # qs \<Rightarrow> q = c \<and> like qs cs)
      else p = c \<and> like ps cs)"

definition ilike :: "string \<Rightarrow> string \<Rightarrow> bool" where
  "ilike p t = like (map lower p) (map lower t)"

text \<open>
  \<open>Article.search_by_title\<close>: the pattern is the query between two \<open>%\<close>, passed as
  a statement parameter.
\<close>

definition search_by_title :: "env \<Rightarrow> string \<Rightarrow> world \<Rightarrow> article list \<times> world" where
  "search_by_title e title_query w =
     (case get_connection e w of
        (w0, False) \<Rightarrow> ([], print Error_searching w0)
      | (w1, True) \<Rightarrow>
         (case articles w1 of
            None \<Rightarrow> ([], print Error_searching w1)
          | Some t \<Rightarrow>
             if fault e = Execute_fault 0 then ([], print Error_searching w1)
             else (map from_dict
                     (order_by_created_at_desc
                        (filter (\<lambda>r. ilike (CHR ''%'' # title_query @ ''%'') (col_title r))
                           (rows t))),
                   close w1)))"

section \<open>Properties of the storage\<close>

text \<open>
  What \<open>PRIMARY KEY\<close>, \<open>SERIAL\<close> and \<open>UNIQUE\<close> maintain: ids are distinct, positive
  and at most the last value drawn from the sequence; a non-\<open>NULL\<close> link occurs once.
\<close>

definition table_ok :: "table \<Rightarrow> bool" where
  "table_ok t =
     (distinct (map col_id (rows t)) \<and>
      list_all (\<lambda>r. 0 < col_id r \<and> col_id r \<le> int (seq_last t)) (rows t) \<and>
      distinct (filter (\<lambda>l. l \<noteq> None) (map col_direct_link (rows t))))"

definition world_ok :: "world \<Rightarrow> bool" where
  "world_ok w = (case articles w of None \<Rightarrow> True | Some t \<Rightarrow> table_ok t)"

text \<open>Every row was last written no earlier than it was created.\<close>

definition timestamps_ok :: "table \<Rightarrow> bool" where
  "timestamps_ok t = list_all (\<lambda>r. col_created_at r \<le> col_updated_at r) (rows t)"

text \<open>The server's clock reads later than every timestamp the table holds.\<close>

definition clock_ahead :: "env \<Rightarrow> table \<Rightarrow> bool" where
  "clock_ahead e t = list_all (\<lambda>r. col_updated_at r < now e) (rows t)"



section \<open>Sample values\<close>

text \<open>An environment without faults whose clock reads \<open>n\<close>.\<close>

definition env_at :: "timestamp \<Rightarrow> env" where
  "env_at n = \<lparr>fault = No_fault, now = n\<rparr>"

text \<open>The table as \<open>create_table\<close> commits it.\<close>

definition empty_articles :: table where
  "empty_articles =
     \<lparr>columns = articles_columns, rows = [], seq_last = 0,
      indexes = [(''idx_articles_title'', ''title''),
                 (''idx_articles_direct_link'', ''direct_link'')]\<rparr>"

text \<open>The world right after \<open>create_table\<close>, with nothing printed.\<close>

definition fresh_world :: world where
  "fresh_world = \<lparr>articles = Some empty_articles, open_conns = 0, stdout = []\<rparr>"

text \<open>\<open>Article(title=t, direct_link=l)\<close>.\<close>

definition draft :: "string \<Rightarrow> string \<Rightarrow> article" where
  "draft t l = Article_init (no_kwargs\<lparr>kw_title := Some (Some t), kw_direct_link := Some (Some l)\<rparr>)"

text \<open>The row that saving \<open>Article(title='a', direct_link='l')\<close> at time 7 stores.\<close>

definition sample_row :: row where
  "sample_row =
     \<lparr>col_id = 1, col_title = ''a'', col_raw_content = Some [], col_direct_link = Some ''l'',
      col_created_at = 7, col_updated_at = 7\<rparr>"

text \<open>The world after that save, with nothing printed.\<close>

definition one_row_world :: world where
  "one_row_world =
     \<lparr>articles = Some (empty_articles\<lparr>rows := [sample_row], seq_last := 1\<rparr>),
      open_conns = 0, stdout = []\<rparr>"

text \<open>Three rows, inserted at times 7, 9 and 8.\<close>

definition report_row :: row where
  "report_row =
     \<lparr>col_id = 1, col_title = ''Quarterly Report'', col_raw_content = Some [],
      col_direct_link = Some ''r'', col_created_at = 7, col_updated_at = 7\<rparr>"

definition percent_row :: row where
  "percent_row =
     \<lparr>col_id = 2, col_title = ''50% off'', col_raw_content = Some [],
      col_direct_link = Some ''p'', col_created_at = 9, col_updated_at = 9\<rparr>"

definition abc_row :: row where
  "abc_row =
     \<lparr>col_id = 3, col_title = ''abc'', col_raw_content = Some [],
      col_direct_link = Some ''a'', col_created_at = 8, col_updated_at = 8\<rparr>"

definition three_rows_world :: world where
  "three_rows_world =
     \<lparr>articles = Some (empty_articles\<lparr>rows := [report_row, percent_row, abc_row],
                                         seq_last := 3\<rparr>),
      open_conns = 0, stdout = []\<rparr>"

text \<open>A world whose database has no \<open>articles\<close> table.\<close>

definition bare_world :: world where
  "bare_world = \<lparr>articles = None, open_conns = 0, stdout = []\<rparr>"

section \<open>What a save does\<close>

text \<open>
  A successful \<open>_insert\<close>: the table was there, the statement returned the new row,
  whose id is the next value of the sequence and whose two timestamps are the clock
  reading; the object took the three values over; the row was committed and the
  connection closed.
\<close>

lemma insert_success:
  assumes "Article_insert e a w = (Some i, a', w')"
  shows "\<exists>t r. articles w = Some t \<and>
           sql_insert e (title a) (raw_content a) (direct_link a) t
             = (Some r, Suc (seq_last t), t\<lparr>rows := rows t @ [r], seq_last := Suc (seq_last t)\<rparr>) \<and>
           col_id r = i \<and> i = int (Suc (seq_last t)) \<and>
           col_created_at r = now e \<and> col_updated_at r = now e \<and>
           a' = a\<lparr>art_id := Some i, created_at := Some (now e), updated_at := Some (now e)\<rparr> \<and>
           w' = print (Inserted i)
                  (w\<lparr>articles := Some (t\<lparr>rows := rows t @ [r], seq_last := Suc (seq_last t)\<rparr>)\<rparr>)"
  using assms
  unfolding Article_insert_def get_connection_def sql_insert_def close_def commit_def print_def
  by (auto split: if_splits option.splits prod.splits simp: Let_def)

text \<open>
  A successful \<open>_update\<close>: the object had the returned id, a row with that id was
  there, exactly the rows with that id were rewritten, and the object's \<open>updated_at\<close>
  alone changed.
\<close>

lemma update_success:
  assumes "Article_update e a w = (Some i, a', w')"
  shows "\<exists>t tit dl. articles w = Some t \<and> art_id a = Some i \<and>
           filter (\<lambda>r. col_id r = i) (rows t) \<noteq> [] \<and>
           a' = a\<lparr>updated_at := Some (now e)\<rparr> \<and>
           w' = print (Updated (Some i))
                  (w\<lparr>articles := Some (t\<lparr>rows := map (\<lambda>r. if col_id r = i
                          then set_row e tit (raw_content a) dl r else r) (rows t)\<rparr>)\<rparr>)"
  using assms
  unfolding Article_update_def get_connection_def sql_update_def close_def commit_def print_def
  by (auto split: if_splits option.splits prod.splits update_result.splits simp: Let_def) blast

text \<open>
  An \<open>_update\<close> whose id no row has, with values that fit their columns and no fault
  before the statement returns: nothing but the "not found" line changes in the world.
\<close>

lemma update_not_found:
  assumes "articles w = Some t" and "filter (\<lambda>r. Some (col_id r) = art_id a) (rows t) = []"
    and "fault e \<noteq> Connect_fault" and "fault e \<noteq> Execute_fault 0"
    and "varchar_null 500 (title a) \<noteq> None" and "varchar_null 1000 (direct_link a) \<noteq> None"
  shows "Article_update e a w = (None, a, print (Update_not_found (art_id a)) w)"
  using assms
  unfolding Article_update_def get_connection_def sql_update_def close_def commit_def print_def
  by (auto split: if_splits option.splits prod.splits update_result.splits simp: Let_def)

text \<open>An update leaves every id, and every row with another id, as it was.\<close>

lemma map_col_id_set_row:
  "map col_id (map (\<lambda>r. if col_id r = i then set_row e tit rc dl r else r) rs) = map col_id rs"
  by (induction rs) (simp_all add: set_row_def)

lemma filter_other_set_row:
  "filter (\<lambda>r. col_id r \<noteq> i) (map (\<lambda>r. if col_id r = i then set_row e tit rc dl r else r) rs)
     = filter (\<lambda>r. col_id r \<noteq> i) rs"
  by (induction rs) (simp_all add: set_row_def)

text \<open>
  With no row under the object's id, \<open>_update\<close> returns \<open>None\<close> and commits nothing,
  whatever the environment does.
\<close>

lemma update_no_row:
  assumes "articles w = Some t" and "filter (\<lambda>r. Some (col_id r) = art_id a) (rows t) = []"
  shows "fst (Article_update e a w) = None \<and> articles (snd (snd (Article_update e a w))) = articles w"
  using assms
  unfolding Article_update_def get_connection_def sql_update_def close_def commit_def print_def
  by (auto split: if_splits option.splits prod.splits update_result.splits simp: Let_def)

text \<open>The empty string is a value of \<open>direct_link\<close> like any other.\<close>

lemma sql_insert_empty_link:
  assumes "sql_insert e ti rc (Some []) t = (Some r, q, t')"
  shows "col_direct_link r = Some [] \<and> Some [] \<notin> set (map col_direct_link (rows t))"
  using assms unfolding sql_insert_def varchar_null_def varchar_def link_taken_def
  by (auto split: if_splits option.splits simp: Let_def)

lemma sql_insert_link_taken:
  "link_taken (Some []) (rows t) \<Longrightarrow> \<exists>q. sql_insert e ti rc (Some []) t = (None, q, t)"
  unfolding sql_insert_def varchar_null_def varchar_def
  by (auto split: if_splits option.splits simp: Let_def)

lemma insert_link_taken:
  assumes "articles w = Some t" and "link_taken (Some []) (rows t)" and "direct_link a = Some []"
  shows "fst (Article_insert e a w) = None \<and>
         map_option rows (articles (snd (snd (Article_insert e a w)))) = map_option rows (articles w)"
proof -
  from sql_insert_link_taken[OF assms(2)] obtain q where
    "sql_insert e (title a) (raw_content a) (Some []) t = (None, q, t)" by blast
  then show ?thesis
    using assms(1,3) unfolding Article_insert_def get_connection_def print_def
    by (simp split: prod.splits)
qed

section \<open>What a delete does\<close>

text \<open>Under \<open>PRIMARY KEY\<close> at most one row has a given id.\<close>

lemma filter_id_none:
  "filter (\<lambda>r. col_id r = i) rs = [] \<Longrightarrow> filter (\<lambda>r. col_id r \<noteq> i) rs = rs"
  by (induction rs) (auto split: if_splits)

lemma filter_id_absent:
  "i \<notin> col_id ` set rs \<Longrightarrow> filter (\<lambda>r. col_id r = i) rs = []"
  by (induction rs) auto

lemma filter_id_distinct:
  "distinct (map col_id rs) \<Longrightarrow> filter (\<lambda>r. col_id r = i) rs \<noteq> [] \<Longrightarrow>
     length rs = Suc (length (filter (\<lambda>r. col_id r \<noteq> i) rs))"
proof (induction rs)
  case Nil
  then show ?case by simp
next
  case (Cons r rs)
  show ?case
  proof (cases "col_id r = i")
    case True
    with Cons.prems(1) have "i \<notin> col_id ` set rs"
      by (auto simp: image_iff)
    from filter_id_absent[OF this] have "filter (\<lambda>r. col_id r = i) rs = []" .
    from filter_id_none[OF this] True show ?thesis by simp
  next
    case False
    with Cons show ?thesis by simp
  qed
qed

text \<open>
  The three ways a \<open>delete\<close> with an id can end: the row was removed; no row had the
  id; or an error branch was taken and the table is as before.
\<close>

lemma delete_cases:
  assumes "art_id a = Some i" and "articles w = Some t" and "Article_delete e a w = (b, w')"
  shows "(b \<and> filter (\<lambda>r. col_id r = i) (rows t) \<noteq> [] \<and>
            articles w' = Some (t\<lparr>rows := filter (\<lambda>r. col_id r \<noteq> i) (rows t)\<rparr>)) \<or>
         (\<not> b \<and> filter (\<lambda>r. col_id r = i) (rows t) = [] \<and>
            articles w' = Some (t\<lparr>rows := filter (\<lambda>r. col_id r \<noteq> i) (rows t)\<rparr>)) \<or>
         (\<not> b \<and> articles w' = Some t)"
  using assms
  unfolding Article_delete_def get_connection_def close_def commit_def print_def
  by (auto split: if_splits simp: Let_def)

section \<open>The table invariant\<close>

text \<open>
  \<open>table_ok\<close> holds of the table \<open>create_table\<close> commits and is kept by every write
  of the repository: an insert draws an id above all ids stored and refuses a link
  already stored; an update keeps the ids and refuses a link stored under another id; a
  delete only removes rows.
\<close>

lemma table_ok_empty: "table_ok empty_articles"
  by (simp add: table_ok_def empty_articles_def)

lemma table_ok_seq:
  "table_ok t \<Longrightarrow> seq_last t \<le> q \<Longrightarrow> table_ok (t\<lparr>seq_last := q\<rparr>)"
  by (auto simp: table_ok_def list_all_iff)

lemma table_ok_insert:
  assumes "table_ok t"
    and "sql_insert e ti rc dl t = (Some r, q, t')"
  shows "table_ok t'"
proof -
  from assms(2) obtain dl' where
    r: "col_id r = int (Suc (seq_last t))" "col_direct_link r = dl'"
    and nt: "\<not> link_taken dl' (rows t)"
    and t': "t' = t\<lparr>rows := rows t @ [r], seq_last := Suc (seq_last t)\<rparr>"
    unfolding sql_insert_def
    by (auto split: if_splits option.splits simp: Let_def)
  from assms(1) have ids: "distinct (map col_id (rows t))"
    and rng: "\<forall>x\<in>set (rows t). 0 < col_id x \<and> col_id x \<le> int (seq_last t)"
    and lnk: "distinct (filter (\<lambda>l. l \<noteq> None) (map col_direct_link (rows t)))"
    by (simp_all add: table_ok_def list_all_iff)
  from rng r(1) have fresh: "col_id r \<notin> col_id ` set (rows t)" by force
  from nt r(2) have free: "col_direct_link r \<noteq> None \<longrightarrow>
      col_direct_link r \<notin> set (filter (\<lambda>l. l \<noteq> None) (map col_direct_link (rows t)))"
    by (auto simp: link_taken_def split: option.splits)
  show ?thesis
    using ids rng lnk fresh free r(1) unfolding t' table_ok_def
    by (auto simp: list_all_iff)
qed

lemma links_after_update:
  assumes "distinct (map col_id rs)"
    and "distinct (filter (\<lambda>l. l \<noteq> None) (map col_direct_link rs))"
    and "\<not> link_taken dl (filter (\<lambda>r. col_id r \<noteq> i) rs)"
  shows "distinct (filter (\<lambda>l. l \<noteq> None)
           (map col_direct_link (map (\<lambda>r. if col_id r = i then set_row e tit rc dl r else r) rs)))"
  using assms
proof (induction rs)
  case Nil
  then show ?case by simp
next
  case (Cons r rs)
  let ?g = "\<lambda>r. if col_id r = i then set_row e tit rc dl r else r"
  have nt: "\<not> link_taken dl (filter (\<lambda>r. col_id r \<noteq> i) rs)"
    using Cons.prems(3) by (auto simp: link_taken_def split: option.splits if_splits)
  have ih: "distinct (filter (\<lambda>l. l \<noteq> None) (map col_direct_link (map ?g rs)))"
    using Cons.IH Cons.prems(1,2) nt by (simp split: if_splits)
  have new: "col_direct_link (?g r) \<notin> set (map col_direct_link (map ?g rs))"
    if some: "col_direct_link (?g r) \<noteq> None"
  proof
    assume "col_direct_link (?g r) \<in> set (map col_direct_link (map ?g rs))"
    then obtain x where x: "x \<in> set rs" "col_direct_link (?g x) = col_direct_link (?g r)"
      by auto
    show False
    proof (cases "col_id r = i")
      case True
      with Cons.prems(1) x(1) have xi: "col_id x \<noteq> i" by (auto simp: image_iff)
      with x(2) True have "col_direct_link x = dl" by (simp add: set_row_def)
      with xi x(1) some True Cons.prems(3) show False
        by (auto simp: link_taken_def set_row_def image_iff split: option.splits)
    next
      case False
      show False
      proof (cases "col_id x = i")
        case True
        with x(2) False have "col_direct_link r = dl" by (simp add: set_row_def)
        with False some Cons.prems(3) show False
          by (auto simp: link_taken_def split: option.splits)
      next
        case xn: False
        with x(2) False have "col_direct_link x = col_direct_link r" by simp
        with x(1) some False Cons.prems(2) show False
          by (auto simp: image_iff split: if_splits)
      qed
    qed
  qed
  show ?case
    using ih new by (auto simp del: map_map)
qed

lemma table_ok_update:
  assumes "table_ok t" and "sql_update e ti rc dl (Some i) t = Row_updated ts t'"
  shows "table_ok t'"
proof -
  from assms(2) obtain tit dl' where
    nt: "\<not> link_taken dl' (filter (\<lambda>r. col_id r \<noteq> i) (rows t))"
    and t': "t' = t\<lparr>rows := map (\<lambda>r. if col_id r = i then set_row e tit rc dl' r else r) (rows t)\<rparr>"
    unfolding sql_update_def
    by (auto split: if_splits option.splits)
  let ?g = "\<lambda>r. if col_id r = i then set_row e tit rc dl' r else r"
  from assms(1) have ids: "distinct (map col_id (rows t))"
    and rng: "list_all (\<lambda>r. 0 < col_id r \<and> col_id r \<le> int (seq_last t)) (rows t)"
    and lnk: "distinct (filter (\<lambda>l. l \<noteq> None) (map col_direct_link (rows t)))"
    by (simp_all add: table_ok_def)
  have m: "map col_id (map ?g (rows t)) = map col_id (rows t)"
    by (rule map_col_id_set_row)
  have "distinct (map col_id (rows t'))"
    using ids unfolding t' by (simp add: m del: map_map)
  moreover have "list_all (\<lambda>r. 0 < col_id r \<and> col_id r \<le> int (seq_last t')) (rows t')"
    using rng unfolding t' by (auto simp: list_all_iff set_row_def)
  moreover have "distinct (filter (\<lambda>l. l \<noteq> None) (map col_direct_link (rows t')))"
    using links_after_update[OF ids lnk nt, of e tit rc] unfolding t' by simp
  ultimately show ?thesis by (simp add: table_ok_def)
qed

lemma distinct_links_filter:
  assumes "distinct (filter (\<lambda>l. l \<noteq> None) (map col_direct_link rs))"
  shows "distinct (filter (\<lambda>l. l \<noteq> None) (map col_direct_link (filter P rs)))"
proof -
  from assms have "distinct (map col_direct_link (filter (\<lambda>r. col_direct_link r \<noteq> None) rs))"
    by (simp add: filter_map o_def)
  then have "distinct (map col_direct_link
                (filter P (filter (\<lambda>r. col_direct_link r \<noteq> None) rs)))"
    by (rule distinct_map_filter)
  then show ?thesis
    by (simp add: filter_map o_def conj_commute)
qed

lemma table_ok_delete:
  assumes "table_ok t"
  shows "table_ok (t\<lparr>rows := filter P (rows t)\<rparr>)"
  using assms distinct_links_filter[of "rows t" P]
  by (auto simp: table_ok_def list_all_iff distinct_map_filter)

lemma save_keeps_world_ok:
  assumes "world_ok w"
  shows "world_ok (snd (snd (Article_save e a w)))"
proof (cases "articles w")
  case None
  then show ?thesis
    by (simp add: Article_save_def Article_insert_def Article_update_def get_connection_def
        print_def world_ok_def split: prod.splits)
next
  case (Some t)
  with assms have ok: "table_ok t" by (simp add: world_ok_def)
  show ?thesis
  proof (cases "truthy (art_id a)")
    case False
    obtain x q t' where si: "sql_insert e (title a) (raw_content a) (direct_link a) t = (x, q, t')"
      by (cases "sql_insert e (title a) (raw_content a) (direct_link a) t")
    have q: "seq_last t \<le> q"
      using si unfolding sql_insert_def
      by (auto split: if_splits option.splits simp: Let_def)
    have t': "x \<noteq> None \<Longrightarrow> table_ok t'"
      using table_ok_insert[OF ok] si by auto
    from False Some si q t' ok table_ok_seq[OF ok q] show ?thesis
      by (auto simp: Article_save_def Article_insert_def get_connection_def print_def close_def
          commit_def world_ok_def Let_def split: option.splits)
  next
    case True
    then obtain i where i: "art_id a = Some i" by (auto simp: truthy_def split: option.splits)
    from True Some i ok table_ok_update[OF ok, of e "title a" "raw_content a" "direct_link a" i]
    show ?thesis
      by (auto simp: Article_save_def Article_update_def get_connection_def print_def close_def
          commit_def world_ok_def Let_def split: update_result.splits)
  qed
qed

lemma delete_keeps_world_ok:
  assumes "world_ok w"
  shows "world_ok (snd (Article_delete e a w))"
  using assms table_ok_delete
  by (auto simp: Article_delete_def get_connection_def print_def close_def commit_def
      world_ok_def Let_def split: option.splits)

lemma create_table_world_ok:
  assumes "world_ok w"
  shows "world_ok (snd (create_table e e2 w))"
  using assms
  by (auto simp: create_table_def table_exists_def get_connection_def sql_drop_def sql_create_def
      sql_index_def create_index_def print_def close_def commit_def world_ok_def table_ok_def
      Let_def split: option.splits)

text \<open>The definitions a concrete run unfolds.\<close>

lemmas eval_defs = Article_save_def truthy_def Article_delete_def Let_def Article_insert_def
      Article_update_def sql_update_def set_row_def
      get_connection_def sql_insert_def close_def commit_def print_def draft_def Article_init_def
      no_kwargs_def env_at_def fresh_world_def varchar_null_def varchar_def serial_max_def
      link_taken_def one_row_world_def sample_row_def empty_articles_def bare_world_def

section \<open>The id 0\<close>

text \<open>
  C8. The dispatch of \<open>save\<close> and the guard of \<open>delete\<close> test the truth value of the
  id: an Article whose id is the integer 0 is saved by an insert, which on success
  appends a row under a fresh, nonzero id drawn from the sequence and gives the object
  that id; and \<open>delete\<close> on it returns false at once, leaving the world as it was (no
  connection, no statement, no output).
\<close>

theorem id_zero_is_unsaved:
  "art_id a = Some 0 \<Longrightarrow>
     Article_save e a w = Article_insert e a w \<and>
     Article_delete e a w = (False, w) \<and>
     (\<forall>i a' w'. Article_save e a w = (Some i, a', w') \<longrightarrow>
        art_id a' = Some i \<and> i \<noteq> 0 \<and>
        (\<exists>t r. articles w = Some t \<and>
           articles w' = Some (t\<lparr>rows := rows t @ [r], seq_last := Suc (seq_last t)\<rparr>) \<and>
           col_id r = i \<and> i = int (seq_last t) + 1))"
proof -
  assume z: "art_id a = Some 0"
  have s: "Article_save e a w = Article_insert e a w"
    using z by (simp add: Article_save_def truthy_def)
  have d: "Article_delete e a w = (False, w)"
    using z by (simp add: Article_delete_def truthy_def)
  have f: "art_id a' = Some i \<and> i \<noteq> 0 \<and>
        (\<exists>t r. articles w = Some t \<and>
           articles w' = Some (t\<lparr>rows := rows t @ [r], seq_last := Suc (seq_last t)\<rparr>) \<and>
           col_id r = i \<and> i = int (seq_last t) + 1)"
    if "Article_save e a w = (Some i, a', w')" for i a' w'
  proof -
    from that s have "Article_insert e a w = (Some i, a', w')" by simp
    from insert_success[OF this] show ?thesis
      by (auto simp: print_def)
  qed
  from s d f show ?thesis by blast
qed

theorem id_zero_is_unsaved_witness:
  "art_id (draft ''a'' ''l''\<lparr>art_id := Some 0\<rparr>) = Some 0 \<and>
   Article_save (env_at 7) (draft ''a'' ''l''\<lparr>art_id := Some 0\<rparr>) fresh_world
     = Article_insert (env_at 7) (draft ''a'' ''l''\<lparr>art_id := Some 0\<rparr>) fresh_world \<and>
   fst (Article_save (env_at 7) (draft ''a'' ''l''\<lparr>art_id := Some 0\<rparr>) fresh_world) = Some 1 \<and>
   Article_delete (env_at 7) (draft ''a'' ''l''\<lparr>art_id := Some 0\<rparr>) fresh_world
     = (False, fresh_world)"
  using id_zero_is_unsaved[of "draft ''a'' ''l''\<lparr>art_id := Some 0\<rparr>" "env_at 7" fresh_world]
  by (simp add: eval_defs)

section \<open>Insert or update\<close>

text \<open>
  C4. For an Article saved without an id (its id is \<open>None\<close>, or falsy), a successful
  \<open>save\<close> returns a positive integer, which is the object's id from then on, and the
  object's \<open>created_at\<close> and \<open>updated_at\<close> are equal (both the server's clock
  reading), as they are in the row stored.
\<close>

theorem insert_id_positive:
  "\<not> truthy (art_id a) \<Longrightarrow> Article_save e a w = (Some i, a', w') \<Longrightarrow>
     0 < i \<and> art_id a' = Some i \<and> created_at a' = Some (now e) \<and> updated_at a' = created_at a' \<and>
     (\<exists>t r. articles w' = Some t \<and> rows t \<noteq> [] \<and> last (rows t) = r \<and> col_id r = i \<and>
        col_created_at r = now e \<and> col_updated_at r = col_created_at r)"
proof -
  assume "\<not> truthy (art_id a)" and "Article_save e a w = (Some i, a', w')"
  then have "Article_insert e a w = (Some i, a', w')"
    by (simp add: Article_save_def)
  from insert_success[OF this] show ?thesis
    by (auto simp: print_def)
qed

theorem insert_id_positive_witness:
  "\<not> truthy (art_id (draft ''a'' ''l'')) \<and>
   Article_save (env_at 7) (draft ''a'' ''l'') fresh_world
     = (Some 1, draft ''a'' ''l''\<lparr>art_id := Some 1, created_at := Some 7, updated_at := Some 7\<rparr>,
        one_row_world\<lparr>stdout := [Inserted 1]\<rparr>) \<and>
   (0::int) < 1"
proof -
  have h: "\<not> truthy (art_id (draft ''a'' ''l''))"
    by (simp add: draft_def Article_init_def no_kwargs_def truthy_def)
  have s: "Article_save (env_at 7) (draft ''a'' ''l'') fresh_world
     = (Some 1, draft ''a'' ''l''\<lparr>art_id := Some 1, created_at := Some 7, updated_at := Some 7\<rparr>,
        one_row_world\<lparr>stdout := [Inserted 1]\<rparr>)"
    by (simp add: eval_defs)
  from insert_id_positive[OF h s] h s show ?thesis by simp
qed

text \<open>
  C1, as the code has it. \<open>save\<close> dispatches on the truth value of the id (\<open>None\<close>
  and 0 are false). With a false id it is \<open>_insert\<close>: on success one row is appended,
  the object takes id, \<open>created_at\<close> and \<open>updated_at\<close> from the row returned, and
  the new id is the result. With a true id it is \<open>_update\<close>: on success the result is
  that id, a row with it existed, no id changed and no row with another id changed.
  With a true id that no row has, the result is \<open>None\<close> and nothing is committed; if
  moreover nothing faults and the values fit their columns, the world changes by the
  "not found" line alone (the connection is closed again, the \<open>except\<close> branch is
  not taken).
\<close>

theorem save_dispatch:
  "(\<not> truthy (art_id a) \<longrightarrow> Article_save e a w = Article_insert e a w) \<and>
   (truthy (art_id a) \<longrightarrow> Article_save e a w = Article_update e a w) \<and>
   (\<not> truthy (art_id a) \<and> Article_save e a w = (Some i, a', w') \<longrightarrow>
      (\<exists>t r. articles w = Some t \<and>
         articles w' = Some (t\<lparr>rows := rows t @ [r], seq_last := Suc (seq_last t)\<rparr>) \<and>
         a' = a\<lparr>art_id := Some (col_id r), created_at := Some (col_created_at r),
                updated_at := Some (col_updated_at r)\<rparr> \<and>
         i = col_id r)) \<and>
   (truthy (art_id a) \<and> Article_save e a w = (Some i, a', w') \<longrightarrow>
      art_id a = Some i \<and>
      (\<exists>t t'. articles w = Some t \<and> articles w' = Some t' \<and>
         filter (\<lambda>r. col_id r = i) (rows t) \<noteq> [] \<and>
         map col_id (rows t') = map col_id (rows t) \<and>
         filter (\<lambda>r. col_id r \<noteq> i) (rows t') = filter (\<lambda>r. col_id r \<noteq> i) (rows t))) \<and>
   (truthy (art_id a) \<and> articles w = Some t0 \<and>
    filter (\<lambda>r. Some (col_id r) = art_id a) (rows t0) = [] \<longrightarrow>
      fst (Article_save e a w) = None \<and>
      articles (snd (snd (Article_save e a w))) = articles w \<and>
      (fault e = No_fault \<and> varchar_null 500 (title a) \<noteq> None \<and>
       varchar_null 1000 (direct_link a) \<noteq> None \<longrightarrow>
         Article_save e a w = (None, a, print (Update_not_found (art_id a)) w)))"
proof (intro conjI impI)
  show "Article_save e a w = Article_insert e a w" if "\<not> truthy (art_id a)"
    using that by (simp add: Article_save_def)
  show "Article_save e a w = Article_update e a w" if "truthy (art_id a)"
    using that by (simp add: Article_save_def)
next
  assume "\<not> truthy (art_id a) \<and> Article_save e a w = (Some i, a', w')"
  then have "Article_insert e a w = (Some i, a', w')"
    by (auto simp: Article_save_def)
  from insert_success[OF this] obtain t r where
    "articles w = Some t" "col_id r = i" "col_created_at r = now e" "col_updated_at r = now e"
    "a' = a\<lparr>art_id := Some i, created_at := Some (now e), updated_at := Some (now e)\<rparr>"
    "w' = print (Inserted i)
            (w\<lparr>articles := Some (t\<lparr>rows := rows t @ [r], seq_last := Suc (seq_last t)\<rparr>)\<rparr>)"
    by blast
  then show "\<exists>t r. articles w = Some t \<and>
         articles w' = Some (t\<lparr>rows := rows t @ [r], seq_last := Suc (seq_last t)\<rparr>) \<and>
         a' = a\<lparr>art_id := Some (col_id r), created_at := Some (col_created_at r),
                updated_at := Some (col_updated_at r)\<rparr> \<and>
         i = col_id r"
    by (intro exI[of _ t] exI[of _ r]) (simp add: print_def)
next
  assume "truthy (art_id a) \<and> Article_save e a w = (Some i, a', w')"
  then have u: "Article_update e a w = (Some i, a', w')"
    by (auto simp: Article_save_def)
  from update_success[OF u] show "art_id a = Some i" by blast
  from update_success[OF u] obtain t tit dl where
    t: "articles w = Some t" "filter (\<lambda>r. col_id r = i) (rows t) \<noteq> []" and
    w': "w' = print (Updated (Some i))
                  (w\<lparr>articles := Some (t\<lparr>rows := map (\<lambda>r. if col_id r = i
                          then set_row e tit (raw_content a) dl r else r) (rows t)\<rparr>)\<rparr>)"
    by blast
  let ?t' = "t\<lparr>rows := map (\<lambda>r. if col_id r = i
                          then set_row e tit (raw_content a) dl r else r) (rows t)\<rparr>"
  have "articles w' = Some ?t'"
    using w' by (simp add: print_def)
  moreover have "map col_id (rows ?t') = map col_id (rows t)"
    using map_col_id_set_row[of i e tit "raw_content a" dl "rows t"] by simp
  moreover have "filter (\<lambda>r. col_id r \<noteq> i) (rows ?t') = filter (\<lambda>r. col_id r \<noteq> i) (rows t)"
    using filter_other_set_row[of i e tit "raw_content a" dl "rows t"] by simp
  ultimately
  show "\<exists>t t'. articles w = Some t \<and> articles w' = Some t' \<and>
         filter (\<lambda>r. col_id r = i) (rows t) \<noteq> [] \<and>
         map col_id (rows t') = map col_id (rows t) \<and>
         filter (\<lambda>r. col_id r \<noteq> i) (rows t') = filter (\<lambda>r. col_id r \<noteq> i) (rows t)"
    using t by blast
next
  assume h: "truthy (art_id a) \<and> articles w = Some t0 \<and>
    filter (\<lambda>r. Some (col_id r) = art_id a) (rows t0) = []"
  then have s: "Article_save e a w = Article_update e a w"
    by (auto simp: Article_save_def)
  from h update_no_row[of w t0 a e] s
  show "fst (Article_save e a w) = None" by simp
  from h update_no_row[of w t0 a e] s
  show "articles (snd (snd (Article_save e a w))) = articles w" by simp
  show "Article_save e a w = (None, a, print (Update_not_found (art_id a)) w)"
    if "fault e = No_fault \<and> varchar_null 500 (title a) \<noteq> None \<and>
       varchar_null 1000 (direct_link a) \<noteq> None"
    using that h s update_not_found[of w t0 a e] by simp
qed

theorem save_dispatch_witness:
  "\<not> truthy (art_id (draft ''a'' ''l'')) \<and>
   Article_save (env_at 7) (draft ''a'' ''l'') fresh_world
     = Article_insert (env_at 7) (draft ''a'' ''l'') fresh_world \<and>
   fst (Article_save (env_at 7) (draft ''a'' ''l'') fresh_world) = Some 1 \<and>
   truthy (art_id (draft ''b'' ''l''\<lparr>art_id := Some 1\<rparr>)) \<and>
   fst (Article_save (env_at 9) (draft ''b'' ''l''\<lparr>art_id := Some 1\<rparr>) one_row_world) = Some 1 \<and>
   truthy (art_id (draft ''b'' ''m''\<lparr>art_id := Some 5\<rparr>)) \<and>
   Article_save (env_at 9) (draft ''b'' ''m''\<lparr>art_id := Some 5\<rparr>) one_row_world
     = (None, draft ''b'' ''m''\<lparr>art_id := Some 5\<rparr>,
        print (Update_not_found (Some 5)) one_row_world)"
  using save_dispatch[where a="draft ''a'' ''l''" and e="env_at 7" and w=fresh_world]
    save_dispatch[where a="draft ''b'' ''l''\<lparr>art_id := Some 1\<rparr>" and e="env_at 9" and w=one_row_world]
    save_dispatch[where a="draft ''b'' ''m''\<lparr>art_id := Some 5\<rparr>" and e="env_at 9" and w=one_row_world]
  by (simp add: eval_defs)

text \<open>
  C1 as stated fails for the id 0: the object has an id, yet \<open>save\<close> inserts a row
  under the new id 2 and returns 2, where \<open>_update\<close> would have found no row 0.
\<close>

theorem save_id_zero_not_update:
  "art_id (draft ''b'' ''m''\<lparr>art_id := Some 0\<rparr>) = Some 0 \<and>
   Article_save (env_at 9) (draft ''b'' ''m''\<lparr>art_id := Some 0\<rparr>) one_row_world
     = (Some 2,
        draft ''b'' ''m''\<lparr>art_id := Some 2, created_at := Some 9, updated_at := Some 9\<rparr>,
        one_row_world\<lparr>articles := Some (empty_articles\<lparr>rows :=
             [sample_row,
              \<lparr>col_id = 2, col_title = ''b'', col_raw_content = Some [],
               col_direct_link = Some ''m'', col_created_at = 9, col_updated_at = 9\<rparr>],
             seq_last := 2\<rparr>),
          stdout := [Inserted 2]\<rparr>) \<and>
   Article_update (env_at 9) (draft ''b'' ''m''\<lparr>art_id := Some 0\<rparr>) one_row_world
     = (None, draft ''b'' ''m''\<lparr>art_id := Some 0\<rparr>,
        print (Update_not_found (Some 0)) one_row_world)"
  by (simp add: eval_defs)

section \<open>The empty link\<close>

text \<open>
  C9. An Article constructed without \<open>direct_link\<close> holds the empty string, not
  \<open>None\<close>; saved, it stores the empty string, not \<open>NULL\<close>, in the row; and the empty
  string falls under \<open>UNIQUE\<close>: once one Article without an id and with the empty link
  has been saved, the save of another such Article into the resulting world returns
  \<open>None\<close> and adds no row.
\<close>

theorem empty_link_is_unique:
  "(kw_direct_link kw = None \<longrightarrow> direct_link (Article_init kw) = Some []) \<and>
   (\<not> truthy (art_id a1) \<and> direct_link a1 = Some [] \<and>
    Article_save e1 a1 w = (Some i, a1', w1) \<and>
    \<not> truthy (art_id a2) \<and> direct_link a2 = Some [] \<longrightarrow>
      (\<exists>t. articles w1 = Some t \<and> rows t \<noteq> [] \<and> col_direct_link (last (rows t)) = Some [] \<and>
           col_id (last (rows t)) = i) \<and>
      fst (Article_save e2 a2 w1) = None \<and>
      map_option rows (articles (snd (snd (Article_save e2 a2 w1)))) = map_option rows (articles w1))"
proof (intro conjI impI)
  show "direct_link (Article_init kw) = Some []" if "kw_direct_link kw = None"
    using that by (simp add: Article_init_def)
next
  assume h: "\<not> truthy (art_id a1) \<and> direct_link a1 = Some [] \<and>
    Article_save e1 a1 w = (Some i, a1', w1) \<and>
    \<not> truthy (art_id a2) \<and> direct_link a2 = Some []"
  then have "Article_insert e1 a1 w = (Some i, a1', w1)"
    by (auto simp: Article_save_def)
  from insert_success[OF this] h obtain t r where
    ins: "sql_insert e1 (title a1) (raw_content a1) (Some []) t
             = (Some r, Suc (seq_last t), t\<lparr>rows := rows t @ [r], seq_last := Suc (seq_last t)\<rparr>)"
      "col_id r = i"
      "w1 = print (Inserted i)
                  (w\<lparr>articles := Some (t\<lparr>rows := rows t @ [r], seq_last := Suc (seq_last t)\<rparr>)\<rparr>)"
    by auto
  let ?t1 = "t\<lparr>rows := rows t @ [r], seq_last := Suc (seq_last t)\<rparr>"
  have t1: "articles w1 = Some ?t1"
    using ins(3) by (simp add: print_def)
  have r: "col_direct_link r = Some []"
    using sql_insert_empty_link[OF ins(1)] by simp
  show "\<exists>t. articles w1 = Some t \<and> rows t \<noteq> [] \<and> col_direct_link (last (rows t)) = Some [] \<and>
           col_id (last (rows t)) = i"
    using t1 r ins(2) by simp
  have s2: "Article_save e2 a2 w1 = Article_insert e2 a2 w1"
    using h by (auto simp: Article_save_def)
  have taken: "link_taken (Some []) (rows ?t1)"
    using r by (auto simp: link_taken_def intro: rev_image_eqI)
  have "fst (Article_insert e2 a2 w1) = None \<and>
     map_option rows (articles (snd (snd (Article_insert e2 a2 w1)))) = map_option rows (articles w1)"
    using insert_link_taken[OF t1 taken] h by simp
  then show "fst (Article_save e2 a2 w1) = None"
    and "map_option rows (articles (snd (snd (Article_save e2 a2 w1)))) = map_option rows (articles w1)"
    using s2 by simp_all
qed

theorem empty_link_is_unique_witness:
  "kw_direct_link (no_kwargs\<lparr>kw_title := Some (Some ''a'')\<rparr>) = None \<and>
   direct_link (Article_init (no_kwargs\<lparr>kw_title := Some (Some ''a'')\<rparr>)) = Some [] \<and>
   \<not> truthy (art_id (Article_init (no_kwargs\<lparr>kw_title := Some (Some ''a'')\<rparr>))) \<and>
   fst (Article_save (env_at 7) (Article_init (no_kwargs\<lparr>kw_title := Some (Some ''a'')\<rparr>)) fresh_world)
     = Some 1 \<and>
   fst (Article_save (env_at 9) (Article_init (no_kwargs\<lparr>kw_title := Some (Some ''b'')\<rparr>))
          (snd (snd (Article_save (env_at 7)
             (Article_init (no_kwargs\<lparr>kw_title := Some (Some ''a'')\<rparr>)) fresh_world)))) = None"
  using empty_link_is_unique[where kw="no_kwargs\<lparr>kw_title := Some (Some ''a'')\<rparr>"
      and ?a1.0="Article_init (no_kwargs\<lparr>kw_title := Some (Some ''a'')\<rparr>)"
      and ?e1.0="env_at 7" and w=fresh_world
      and ?a2.0="Article_init (no_kwargs\<lparr>kw_title := Some (Some ''b'')\<rparr>)" and ?e2.0="env_at 9"]
  by (simp add: eval_defs)

section \<open>Deleting a row\<close>

text \<open>
  C6. \<open>delete\<close> on an Article without an id (or with a falsy one) returns false at once
  and leaves the world untouched. With the id \<open>i\<close>, on a table whose ids are distinct
  (as \<open>PRIMARY KEY\<close> keeps them, see \<open>table_ok\<close>),
  the result is true if and only if exactly one row was removed, and then the rows left
  are those with another id; when it is false the rows are as before. A second
  \<open>delete\<close> after a successful one returns false.
\<close>

theorem delete_result:
  "(\<not> truthy (art_id a) \<longrightarrow> Article_delete e a w = (False, w)) \<and>
   (art_id a = Some i \<and> articles w = Some t \<and> distinct (map col_id (rows t)) \<and>
    Article_delete e a w = (b, w') \<longrightarrow>
      (\<exists>t'. articles w' = Some t' \<and>
         rows t' = (if b then filter (\<lambda>r. col_id r \<noteq> i) (rows t) else rows t) \<and>
         b = (length (rows t) = Suc (length (rows t'))))) \<and>
   (Article_delete e a w = (True, w1) \<longrightarrow> fst (Article_delete e2 a w1) = False)"
proof (intro conjI impI)
  show "Article_delete e a w = (False, w)" if "\<not> truthy (art_id a)"
    using that by (simp add: Article_delete_def)
next
  assume h: "art_id a = Some i \<and> articles w = Some t \<and> distinct (map col_id (rows t)) \<and>
    Article_delete e a w = (b, w')"
  then have d: "distinct (map col_id (rows t))"
    by simp
  from h delete_cases[of a i w t e b w']
  consider
    (removed) "b" "filter (\<lambda>r. col_id r = i) (rows t) \<noteq> []"
      "articles w' = Some (t\<lparr>rows := filter (\<lambda>r. col_id r \<noteq> i) (rows t)\<rparr>)"
  | (absent) "\<not> b" "filter (\<lambda>r. col_id r = i) (rows t) = []"
      "articles w' = Some (t\<lparr>rows := filter (\<lambda>r. col_id r \<noteq> i) (rows t)\<rparr>)"
  | (failed) "\<not> b" "articles w' = Some t"
    by blast
  then show "\<exists>t'. articles w' = Some t' \<and>
         rows t' = (if b then filter (\<lambda>r. col_id r \<noteq> i) (rows t) else rows t) \<and>
         b = (length (rows t) = Suc (length (rows t')))"
  proof cases
    case removed
    with filter_id_distinct[OF d removed(2)] show ?thesis by simp
  next
    case absent
    with filter_id_none[OF absent(2)] show ?thesis by simp
  next
    case failed
    then show ?thesis by simp
  qed
next
  assume "Article_delete e a w = (True, w1)"
  then show "fst (Article_delete e2 a w1) = False"
    unfolding Article_delete_def get_connection_def close_def commit_def print_def
    by (auto split: if_splits option.splits simp: Let_def filter_empty_conv)
qed

theorem delete_result_witness:
  "\<not> truthy (art_id (draft ''a'' ''l'')) \<and>
   Article_delete (env_at 9) (draft ''a'' ''l'') one_row_world = (False, one_row_world) \<and>
   art_id (from_dict sample_row) = Some 1 \<and>
   distinct (map col_id (rows (empty_articles\<lparr>rows := [sample_row], seq_last := 1\<rparr>))) \<and>
   Article_delete (env_at 9) (from_dict sample_row) one_row_world
     = (True, one_row_world\<lparr>articles := Some (empty_articles\<lparr>seq_last := 1\<rparr>),
                             stdout := [Deleted (Some 1)]\<rparr>) \<and>
   Article_delete (env_at 10) (from_dict sample_row)
       (one_row_world\<lparr>articles := Some (empty_articles\<lparr>seq_last := 1\<rparr>),
                             stdout := [Deleted (Some 1)]\<rparr>)
     = (False, one_row_world\<lparr>articles := Some (empty_articles\<lparr>seq_last := 1\<rparr>),
                             stdout := [Deleted (Some 1), Delete_not_found (Some 1)]\<rparr>)"
  using delete_result[where a="draft ''a'' ''l''" and e="env_at 9" and w=one_row_world]
    delete_result[where a="from_dict sample_row" and e="env_at 9" and w=one_row_world and i=1
       and t="empty_articles\<lparr>rows := [sample_row], seq_last := 1\<rparr>"
       and ?e2.0="env_at 10"]
  by (simp add: eval_defs from_dict_def)

section \<open>Connections\<close>


section \<open>Creating the table\<close>



text \<open>
  When its connection, one of its three statements or its commit fails,
  \<open>create_table\<close> returns false and the committed table is as before.
\<close>

lemma create_table_failed:
  assumes "fault e = Connect_fault \<or> fault e = Execute_fault 0 \<or> fault e = Execute_fault 1 \<or>
           fault e = Execute_fault 2 \<or> fault e = Commit_fault"
  shows "fst (create_table e e2 w) = False \<and> articles (snd (create_table e e2 w)) = articles w"
  using assms
  by (auto simp: create_table_def get_connection_def sql_drop_def sql_create_def sql_index_def
      print_def Let_def)



section \<open>Timestamps\<close>

text \<open>A save that returns \<open>None\<close> leaves the rows as they were.\<close>

lemma save_none_rows:
  assumes "Article_save e a w = (None, a', w')" and "articles w = Some t"
  shows "\<exists>t'. articles w' = Some t' \<and> rows t' = rows t"
proof (cases "truthy (art_id a)")
  case True
  with assms have "Article_update e a w = (None, a', w')"
    by (simp add: Article_save_def)
  with assms(2) True show ?thesis
    unfolding Article_update_def get_connection_def close_def commit_def print_def
    by (auto split: if_splits update_result.splits simp: Let_def truthy_def)
next
  case False
  with assms have "Article_insert e a w = (None, a', w')"
    by (simp add: Article_save_def)
  with assms(2) show ?thesis
    unfolding Article_insert_def get_connection_def close_def commit_def print_def
    by (auto split: if_splits prod.splits option.splits simp: Let_def)
qed

text \<open>
  The rows an update rewrites under a clock that reads later than every stored
  timestamp: \<open>created_at\<close> is kept, \<open>updated_at\<close> moves strictly forward.
\<close>

lemma timestamps_ok_set_row:
  assumes "timestamps_ok t" and "clock_ahead e t"
  shows "timestamps_ok (t\<lparr>rows := map (\<lambda>r. if col_id r = i then set_row e tit rc dl r else r) (rows t)\<rparr>)"
  using assms
  by (fastforce simp: timestamps_ok_def clock_ahead_def list_all_iff set_row_def)

lemma updated_later:
  assumes "clock_ahead e t"
  shows "list_all2 (\<lambda>r r'. if col_id r = i
                          then col_updated_at r < col_updated_at r' \<and> col_updated_at r' = now e
                          else r' = r)
           (rows t) (map (\<lambda>r. if col_id r = i then set_row e tit rc dl r else r) (rows t))"
  using assms
  by (auto simp: clock_ahead_def list_all_iff list_all2_map2 set_row_def intro!: list_all2_same[THEN iffD2])

lemma map_created_set_row:
  "map col_created_at (map (\<lambda>r. if col_id r = i then set_row e tit rc dl r else r) rs)
     = map col_created_at rs"
  by (induction rs) (simp_all add: set_row_def)

text \<open>
  C3, as the code has it. Both timestamps come from the server's clock, which the
  code does not control. Provided that clock reads later than every \<open>updated_at\<close>
  stored, a save keeps \<open>created_at \<le> updated_at\<close> in every row; a successful insert
  sets both timestamps of the new row and of the object to the clock reading; a
  successful update leaves every \<open>created_at\<close> (rows and object) unchanged, sets the
  \<open>updated_at\<close> of the row with the object's id to the clock reading, which is strictly
  later than before, and leaves the other rows as they were.
\<close>

theorem timestamps_with_forward_clock:
  "Article_save e a w = (res, a', w') \<and> articles w = Some t \<and>
   timestamps_ok t \<and> clock_ahead e t \<longrightarrow>
     (\<exists>t'. articles w' = Some t' \<and> timestamps_ok t' \<and>
        (\<not> truthy (art_id a) \<and> res \<noteq> None \<longrightarrow>
           created_at a' = Some (now e) \<and> updated_at a' = Some (now e) \<and>
           (\<exists>r. rows t' = rows t @ [r] \<and> col_created_at r = now e \<and>
                col_updated_at r = now e)) \<and>
        (truthy (art_id a) \<and> res \<noteq> None \<longrightarrow>
           created_at a' = created_at a \<and> updated_at a' = Some (now e) \<and>
           map col_created_at (rows t') = map col_created_at (rows t) \<and>
           list_all2 (\<lambda>r r'. if Some (col_id r) = art_id a
                               then col_updated_at r < col_updated_at r' \<and>
                                    col_updated_at r' = now e
                               else r' = r) (rows t) (rows t')))"
proof
  assume h: "Article_save e a w = (res, a', w') \<and> articles w = Some t \<and>
   timestamps_ok t \<and> clock_ahead e t"
  then have sv: "Article_save e a w = (res, a', w')" and t: "articles w = Some t"
    and ok: "timestamps_ok t" and clk: "clock_ahead e t"
    by simp_all
  show "\<exists>t'. articles w' = Some t' \<and> timestamps_ok t' \<and>
        (\<not> truthy (art_id a) \<and> res \<noteq> None \<longrightarrow>
           created_at a' = Some (now e) \<and> updated_at a' = Some (now e) \<and>
           (\<exists>r. rows t' = rows t @ [r] \<and> col_created_at r = now e \<and>
                col_updated_at r = now e)) \<and>
        (truthy (art_id a) \<and> res \<noteq> None \<longrightarrow>
           created_at a' = created_at a \<and> updated_at a' = Some (now e) \<and>
           map col_created_at (rows t') = map col_created_at (rows t) \<and>
           list_all2 (\<lambda>r r'. if Some (col_id r) = art_id a
                               then col_updated_at r < col_updated_at r' \<and>
                                    col_updated_at r' = now e
                               else r' = r) (rows t) (rows t'))"
  proof (cases res)
    case None
    with save_none_rows[of e a w a' w' t] sv t obtain t' where
      "articles w' = Some t'" "rows t' = rows t" by auto
    with ok None show ?thesis by (auto simp: timestamps_ok_def)
  next
    case (Some i)
    show ?thesis
    proof (cases "truthy (art_id a)")
      case False
      with sv Some have "Article_insert e a w = (Some i, a', w')"
        by (simp add: Article_save_def)
      from insert_success[OF this] t obtain r where
        r: "col_created_at r = now e" "col_updated_at r = now e"
        and a': "a' = a\<lparr>art_id := Some i, created_at := Some (now e), updated_at := Some (now e)\<rparr>"
        and w': "w' = print (Inserted i)
                  (w\<lparr>articles := Some (t\<lparr>rows := rows t @ [r], seq_last := Suc (seq_last t)\<rparr>)\<rparr>)"
        by auto
      let ?t' = "t\<lparr>rows := rows t @ [r], seq_last := Suc (seq_last t)\<rparr>"
      have "articles w' = Some ?t'" using w' by (simp add: print_def)
      moreover have "timestamps_ok ?t'" using ok r by (simp add: timestamps_ok_def)
      moreover have "rows ?t' = rows t @ [r]" by simp
      ultimately show ?thesis using False a' r by auto
    next
      case True
      with sv Some have "Article_update e a w = (Some i, a', w')"
        by (simp add: Article_save_def)
      from update_success[OF this] t obtain tit dl where
        i: "art_id a = Some i" and a': "a' = a\<lparr>updated_at := Some (now e)\<rparr>"
        and w': "w' = print (Updated (Some i))
                  (w\<lparr>articles := Some (t\<lparr>rows := map (\<lambda>r. if col_id r = i
                          then set_row e tit (raw_content a) dl r else r) (rows t)\<rparr>)\<rparr>)"
        by auto
      let ?t' = "t\<lparr>rows := map (\<lambda>r. if col_id r = i
                          then set_row e tit (raw_content a) dl r else r) (rows t)\<rparr>"
      have 1: "articles w' = Some ?t'" using w' by (simp add: print_def)
      have 2: "timestamps_ok ?t'" by (rule timestamps_ok_set_row[OF ok clk])
      have 3: "map col_created_at (rows ?t') = map col_created_at (rows t)"
        using map_created_set_row[of i e tit "raw_content a" dl "rows t"] by simp
      have 4: "list_all2 (\<lambda>r r'. if Some (col_id r) = art_id a
                               then col_updated_at r < col_updated_at r' \<and>
                                    col_updated_at r' = now e
                               else r' = r) (rows t) (rows ?t')"
        using updated_later[OF clk, of i tit "raw_content a" dl] i by simp
      from 1 2 3 4 True a' show ?thesis by auto
    qed
  qed
qed

theorem timestamps_with_forward_clock_witness:
  "Article_save (env_at 9) ((from_dict sample_row)\<lparr>title := Some ''b''\<rparr>) one_row_world
     = (Some 1, (from_dict sample_row)\<lparr>title := Some ''b'', updated_at := Some 9\<rparr>,
        one_row_world\<lparr>articles := Some (empty_articles\<lparr>rows :=
             [sample_row\<lparr>col_title := ''b'', col_updated_at := 9\<rparr>], seq_last := 1\<rparr>),
          stdout := [Updated (Some 1)]\<rparr>) \<and>
   timestamps_ok (empty_articles\<lparr>rows := [sample_row], seq_last := 1\<rparr>) \<and>
   clock_ahead (env_at 9) (empty_articles\<lparr>rows := [sample_row], seq_last := 1\<rparr>) \<and>
   timestamps_ok (empty_articles\<lparr>rows :=
             [sample_row\<lparr>col_title := ''b'', col_updated_at := 9\<rparr>], seq_last := 1\<rparr>) \<and>
   created_at ((from_dict sample_row)\<lparr>title := Some ''b'', updated_at := Some 9\<rparr>) = Some 7"
proof -
  have s: "Article_save (env_at 9) ((from_dict sample_row)\<lparr>title := Some ''b''\<rparr>) one_row_world
     = (Some 1, (from_dict sample_row)\<lparr>title := Some ''b'', updated_at := Some 9\<rparr>,
        one_row_world\<lparr>articles := Some (empty_articles\<lparr>rows :=
             [sample_row\<lparr>col_title := ''b'', col_updated_at := 9\<rparr>], seq_last := 1\<rparr>),
          stdout := [Updated (Some 1)]\<rparr>)"
    by (simp add: eval_defs from_dict_def)
  have a: "articles one_row_world = Some (empty_articles\<lparr>rows := [sample_row], seq_last := 1\<rparr>)"
    by (simp add: one_row_world_def)
  have ok: "timestamps_ok (empty_articles\<lparr>rows := [sample_row], seq_last := 1\<rparr>)"
    by (simp add: timestamps_ok_def sample_row_def)
  have clk: "clock_ahead (env_at 9) (empty_articles\<lparr>rows := [sample_row], seq_last := 1\<rparr>)"
    by (simp add: clock_ahead_def sample_row_def env_at_def)
  from timestamps_with_forward_clock[of "env_at 9" "(from_dict sample_row)\<lparr>title := Some ''b''\<rparr>"
      one_row_world "Some 1" "(from_dict sample_row)\<lparr>title := Some ''b'', updated_at := Some 9\<rparr>"
      "one_row_world\<lparr>articles := Some (empty_articles\<lparr>rows :=
             [sample_row\<lparr>col_title := ''b'', col_updated_at := 9\<rparr>], seq_last := 1\<rparr>),
          stdout := [Updated (Some 1)]\<rparr>" "empty_articles\<lparr>rows := [sample_row], seq_last := 1\<rparr>"]
    s a ok clk
  have "timestamps_ok (empty_articles\<lparr>rows :=
             [sample_row\<lparr>col_title := ''b'', col_updated_at := 9\<rparr>], seq_last := 1\<rparr>)"
    by simp
  with s ok clk show ?thesis by (simp add: from_dict_def sample_row_def)
qed

text \<open>
  C3 as stated fails when the server's clock is set back between two saves: inserted
  at time 7 and updated at time 3, the row has \<open>updated_at\<close> 3 before \<open>created_at\<close> 7;
  and updated at time 7 again, its \<open>updated_at\<close> is not later than it was.
\<close>

theorem update_with_clock_set_back:
  "Article_save (env_at 7) (draft ''a'' ''l'') fresh_world
     = (Some 1, draft ''a'' ''l''\<lparr>art_id := Some 1, created_at := Some 7, updated_at := Some 7\<rparr>,
        one_row_world\<lparr>stdout := [Inserted 1]\<rparr>) \<and>
   Article_save (env_at 3)
       (draft ''b'' ''l''\<lparr>art_id := Some 1, created_at := Some 7, updated_at := Some 7\<rparr>)
       (one_row_world\<lparr>stdout := [Inserted 1]\<rparr>)
     = (Some 1, draft ''b'' ''l''\<lparr>art_id := Some 1, created_at := Some 7, updated_at := Some 3\<rparr>,
        one_row_world\<lparr>articles := Some (empty_articles\<lparr>rows :=
             [sample_row\<lparr>col_title := ''b'', col_updated_at := 3\<rparr>], seq_last := 1\<rparr>),
          stdout := [Inserted 1, Updated (Some 1)]\<rparr>) \<and>
   col_updated_at (sample_row\<lparr>col_title := ''b'', col_updated_at := 3\<rparr>)
     < col_created_at (sample_row\<lparr>col_title := ''b'', col_updated_at := 3\<rparr>) \<and>
   \<not> timestamps_ok (empty_articles\<lparr>rows :=
             [sample_row\<lparr>col_title := ''b'', col_updated_at := 3\<rparr>], seq_last := 1\<rparr>) \<and>
   Article_save (env_at 7)
       (draft ''b'' ''l''\<lparr>art_id := Some 1, created_at := Some 7, updated_at := Some 7\<rparr>)
       (one_row_world\<lparr>stdout := [Inserted 1]\<rparr>)
     = (Some 1, draft ''b'' ''l''\<lparr>art_id := Some 1, created_at := Some 7, updated_at := Some 7\<rparr>,
        one_row_world\<lparr>articles := Some (empty_articles\<lparr>rows :=
             [sample_row\<lparr>col_title := ''b''\<rparr>], seq_last := 1\<rparr>),
          stdout := [Inserted 1, Updated (Some 1)]\<rparr>)"
proof -
  have 1: "Article_save (env_at 7) (draft ''a'' ''l'') fresh_world
     = (Some 1, draft ''a'' ''l''\<lparr>art_id := Some 1, created_at := Some 7, updated_at := Some 7\<rparr>,
        one_row_world\<lparr>stdout := [Inserted 1]\<rparr>)"
    by (simp add: eval_defs)
  have 2: "Article_save (env_at 3)
       (draft ''b'' ''l''\<lparr>art_id := Some 1, created_at := Some 7, updated_at := Some 7\<rparr>)
       (one_row_world\<lparr>stdout := [Inserted 1]\<rparr>)
     = (Some 1, draft ''b'' ''l''\<lparr>art_id := Some 1, created_at := Some 7, updated_at := Some 3\<rparr>,
        one_row_world\<lparr>articles := Some (empty_articles\<lparr>rows :=
             [sample_row\<lparr>col_title := ''b'', col_updated_at := 3\<rparr>], seq_last := 1\<rparr>),
          stdout := [Inserted 1, Updated (Some 1)]\<rparr>)"
    by (simp add: eval_defs)
  have 3: "col_updated_at (sample_row\<lparr>col_title := ''b'', col_updated_at := 3\<rparr>)
     < col_created_at (sample_row\<lparr>col_title := ''b'', col_updated_at := 3\<rparr>)"
    by (simp add: sample_row_def)
  have 4: "\<not> timestamps_ok (empty_articles\<lparr>rows :=
             [sample_row\<lparr>col_title := ''b'', col_updated_at := 3\<rparr>], seq_last := 1\<rparr>)"
    by (simp add: timestamps_ok_def sample_row_def)
  have 5: "Article_save (env_at 7)
       (draft ''b'' ''l''\<lparr>art_id := Some 1, created_at := Some 7, updated_at := Some 7\<rparr>)
       (one_row_world\<lparr>stdout := [Inserted 1]\<rparr>)
     = (Some 1, draft ''b'' ''l''\<lparr>art_id := Some 1, created_at := Some 7, updated_at := Some 7\<rparr>,
        one_row_world\<lparr>articles := Some (empty_articles\<lparr>rows :=
             [sample_row\<lparr>col_title := ''b''\<rparr>], seq_last := 1\<rparr>),
          stdout := [Inserted 1, Updated (Some 1)]\<rparr>)"
    by (simp add: eval_defs)
  from 1 2 3 4 5 show ?thesis by blast
qed

section \<open>Searching by title\<close>

text \<open>
  What \<open>LIKE\<close> does with the patterns \<open>search_by_title\<close> builds: a lone \<open>%\<close>
  matches everything; a leading \<open>%\<close> lets the rest of the pattern start anywhere; a
  run of characters without \<open>%\<close>, \<open>_\<close> and backslash matches itself only. So a query
  of such characters between two \<open>%\<close> matches the texts that contain it.
\<close>

lemma like_percent: "like [CHR ''%''] t"
  by (induction t) simp_all

lemma like_percent_Cons:
  "like (CHR ''%'' # p) t \<longleftrightarrow> (\<exists>k\<le>length t. like p (drop k t))"
proof (induction t)
  case Nil
  then show ?case by simp
next
  case (Cons c cs)
  have "(\<exists>k\<le>length (c # cs). like p (drop k (c # cs)))
          \<longleftrightarrow> like p (c # cs) \<or> (\<exists>k\<le>length cs. like p (drop k cs))"
  proof
    assume "\<exists>k\<le>length (c # cs). like p (drop k (c # cs))"
    then obtain k where k: "k \<le> length (c # cs)" "like p (drop k (c # cs))" by blast
    show "like p (c # cs) \<or> (\<exists>k\<le>length cs. like p (drop k cs))"
    proof (cases k)
      case 0
      with k show ?thesis by simp
    next
      case (Suc j)
      with k have "j \<le> length cs" "like p (drop j cs)" by simp_all
      then show ?thesis by blast
    qed
  next
    assume "like p (c # cs) \<or> (\<exists>k\<le>length cs. like p (drop k cs))"
    then show "\<exists>k\<le>length (c # cs). like p (drop k (c # cs))"
    proof
      assume "like p (c # cs)"
      then have "0 \<le> length (c # cs) \<and> like p (drop 0 (c # cs))" by simp
      then show ?thesis by blast
    next
      assume "\<exists>k\<le>length cs. like p (drop k cs)"
      then obtain k where "k \<le> length cs" "like p (drop k cs)" by blast
      then have "Suc k \<le> length (c # cs) \<and> like p (drop (Suc k) (c # cs))" by simp
      then show ?thesis by blast
    qed
  qed
  with Cons show ?case by simp
qed




lemma lower_special:
  "lower CHR ''%'' = CHR ''%''" "lower CHR ''_'' = CHR ''_''" "lower CHR 0x5C = CHR 0x5C"
  by (simp_all add: lower_def)



lemma like_percent_skip: "like p t \<Longrightarrow> like (CHR ''%'' # p) t"
  using like_percent_Cons[of p t] by force

lemma ilike_any: "ilike (CHR ''%'' # ''%'' @ ''%'') s"
  using like_percent_skip[OF like_percent_skip[OF like_percent], of "map lower s"]
  by (simp add: ilike_def lower_special)

lemma ilike_one: "ilike (CHR ''%'' # ''_'' @ ''%'') s \<longleftrightarrow> s \<noteq> []"
proof -
  have "like (CHR ''_'' # [CHR ''%'']) u \<longleftrightarrow> u \<noteq> []" for u
    by (cases u) (simp_all add: like_percent)
  then have "like (CHR ''%'' # CHR ''_'' # [CHR ''%'']) u \<longleftrightarrow> u \<noteq> []" for u
    using like_percent_Cons[of "CHR ''_'' # [CHR ''%'']" u]
    by (cases u) force+
  then show ?thesis
    by (simp add: ilike_def lower_special)
qed


lemma order_by_mset: "mset (order_by_created_at_desc rs) = mset rs"
  by (simp add: order_by_created_at_desc_def)

text \<open>The two ways \<open>search_by_title\<close> ends.\<close>

lemma search_ok:
  "articles w = Some t \<Longrightarrow> fault e \<noteq> Connect_fault \<Longrightarrow> fault e \<noteq> Execute_fault 0 \<Longrightarrow>
     search_by_title e q w =
       (map from_dict (order_by_created_at_desc
          (filter (\<lambda>r. ilike (CHR ''%'' # q @ ''%'') (col_title r)) (rows t))),
        w)"
  by (simp add: search_by_title_def get_connection_def close_def)






text \<open>
  C10. The query goes into the pattern as it is, so \<open>%\<close> and \<open>_\<close> in it are
  wildcards: \<open>search_by_title("%")\<close> returns every article, the same list as
  \<open>get_all\<close>, and \<open>search_by_title("_")\<close> returns every article whose title is not
  empty, whether or not the title holds a \<open>%\<close> or a \<open>_\<close>. Neither character can
  be looked for as a plain substring.
\<close>

theorem search_wildcards:
  "articles w = Some t \<and> fault e \<noteq> Connect_fault \<and> fault e \<noteq> Execute_fault 0 \<longrightarrow>
     fst (search_by_title e ''%'' w) = map from_dict (order_by_created_at_desc (rows t)) \<and>
     fst (search_by_title e ''%'' w) = fst (get_all e w) \<and>
     mset (order_by_created_at_desc (rows t)) = mset (rows t) \<and>
     fst (search_by_title e ''_'' w)
       = map from_dict (order_by_created_at_desc (filter (\<lambda>r. col_title r \<noteq> []) (rows t)))"
proof (intro impI conjI)
  assume h: "articles w = Some t \<and> fault e \<noteq> Connect_fault \<and> fault e \<noteq> Execute_fault 0"
  with search_ok[of w t e "''%''"] ilike_any
  show all: "fst (search_by_title e ''%'' w) = map from_dict (order_by_created_at_desc (rows t))"
    by simp
  from h have "fst (get_all e w) = map from_dict (order_by_created_at_desc (rows t))"
    by (simp add: get_all_def get_connection_def close_def)
  with all show "fst (search_by_title e ''%'' w) = fst (get_all e w)" by simp
  show "mset (order_by_created_at_desc (rows t)) = mset (rows t)"
    by (rule order_by_mset)
  from h search_ok[of w t e "''_''"] ilike_one
  show "fst (search_by_title e ''_'' w)
       = map from_dict (order_by_created_at_desc (filter (\<lambda>r. col_title r \<noteq> []) (rows t)))"
    by simp
qed

theorem search_wildcards_witness:
  "articles three_rows_world
     = Some (empty_articles\<lparr>rows := [report_row, percent_row, abc_row], seq_last := 3\<rparr>) \<and>
   fault (env_at 10) \<noteq> Connect_fault \<and> fault (env_at 10) \<noteq> Execute_fault 0 \<and>
   fst (search_by_title (env_at 10) ''%'' three_rows_world)
     = map from_dict [percent_row, abc_row, report_row] \<and>
   fst (search_by_title (env_at 10) ''_'' three_rows_world)
     = map from_dict [percent_row, abc_row, report_row] \<and>
   fst (get_all (env_at 10) three_rows_world) = map from_dict [percent_row, abc_row, report_row]"
proof -
  have a: "articles three_rows_world
     = Some (empty_articles\<lparr>rows := [report_row, percent_row, abc_row], seq_last := 3\<rparr>)"
    by (simp add: three_rows_world_def)
  have f: "fault (env_at 10) \<noteq> Connect_fault" "fault (env_at 10) \<noteq> Execute_fault 0"
    by (simp_all add: env_at_def)
  have o: "order_by_created_at_desc [report_row, percent_row, abc_row]
             = [percent_row, abc_row, report_row]"
    by (simp add: order_by_created_at_desc_def report_row_def percent_row_def abc_row_def)
  have n: "filter (\<lambda>r. col_title r \<noteq> []) [report_row, percent_row, abc_row]
             = [report_row, percent_row, abc_row]"
    by (simp add: report_row_def percent_row_def abc_row_def)
  from search_wildcards[of three_rows_world
      "empty_articles\<lparr>rows := [report_row, percent_row, abc_row], seq_last := 3\<rparr>" "env_at 10"]
    a f o n
  show ?thesis by auto
qed

end
